theory Spec2Isabelle
  imports Complex_Main "HOL-Library.Multiset" "HOL-Library.Sublist" "HOL-Library.Product_Lexorder"
begin

section \<open>Data model of \<^verbatim>\<open>geomesh/utils.py\<close>\<close>

text \<open>
  Coordinates and scalar values are \<^verbatim>\<open>float64\<close> in the source; they are modelled as
  reals, so rounding is not part of the model. Vertex indices are naturals.
\<close>

type_synonym point = "real \<times> real"
type_synonym edge = "nat \<times> nat"
type_synonym ring = "edge list"
type_synonym tria = "nat \<times> nat \<times> nat"

text \<open>
  Every exception the code can raise is a value. \<open>DidNotConverge imax\<close> is the
  \<^verbatim>\<open>Exception\<close> of \<^verbatim>\<open>limgrad\<close>, whose message carries the iteration cap.
\<close>

datatype error =
    ValueError
  | IndexError
  | UnboundLocalError
  | NotImplementedError
  | DidNotConverge int

text \<open>
  \<^verbatim>\<open>jigsaw_msh_t\<close>: \<open>vert2\<close> holds (coord, IDtag), \<open>tria3\<close>, \<open>quad4\<close> and
  \<open>hexa8\<close> hold (index, IDtag), \<open>value'\<close> is the scalar field \<^verbatim>\<open>mesh.value\<close>.
\<close>

record mesh =
  mshID :: string
  vert2 :: "(point \<times> int) list"
  tria3 :: "(tria \<times> int) list"
  quad4 :: "(nat list \<times> int) list"
  hexa8 :: "(nat list \<times> int) list"
  value' :: "real list"

text \<open>
  What the code reads of a \<^verbatim>\<open>matplotlib.tri.Triangulation\<close>: \<^verbatim>\<open>x\<close>, \<^verbatim>\<open>y\<close>,
  \<^verbatim>\<open>triangles\<close>, \<^verbatim>\<open>neighbors\<close> (one row of three per triangle, \<open>-1\<close> for no
  neighbour) and \<^verbatim>\<open>edges\<close>.
\<close>

record triangulation =
  tri_x :: "real list"
  tri_y :: "real list"
  tri_triangles :: "tria list"
  tri_neighbors :: "(int \<times> int \<times> int) list"
  tri_edges :: "edge list"

text \<open>
  The third-party calls of the source are parameters of the model: the constructor
  \<^verbatim>\<open>Triangulation(x, y, triangles)\<close> of matplotlib, \<^verbatim>\<open>Polygon(shell, holes).area\<close> and
  \<^verbatim>\<open>Polygon(shell, holes).exterior.coords\<close> of shapely, and
  \<^verbatim>\<open>Path(vertices, closed=True).contains_point\<close> of matplotlib. So are the two orders
  that the source leaves to its platform: \<^verbatim>\<open>np.argsort\<close> (its default sort promises no
  order for equal values), and the order in which CPython iterates a \<^verbatim>\<open>set\<close>, given
  the values in the order they were added (it follows the hash table, not the values).
  Every theorem below that mentions a library \<open>L\<close> holds for any behaviour of these
  calls.
\<close>

record extlib =
  Triangulation :: "real list \<Rightarrow> real list \<Rightarrow> tria list \<Rightarrow> error + triangulation"
  Polygon_area :: "point list \<Rightarrow> point list list \<Rightarrow> error + real"
  exterior_coords :: "point list \<Rightarrow> point list"
  Path_contains :: "point list \<Rightarrow> point \<Rightarrow> bool"
  argsort :: "real list \<Rightarrow> nat list"
  set_iter :: "nat list \<Rightarrow> nat list"

section \<open>Python and numpy primitives\<close>

definition err_bind :: "error + 'a \<Rightarrow> ('a \<Rightarrow> error + 'b) \<Rightarrow> error + 'b" where
  "err_bind m f = (case m of Inl e \<Rightarrow> Inl e | Inr x \<Rightarrow> f x)"

text \<open>A comprehension or loop whose body can raise: the first error wins.\<close>

fun map_err :: "('a \<Rightarrow> error + 'b) \<Rightarrow> 'a list \<Rightarrow> error + 'b list" where
  "map_err f [] = Inr []"
| "map_err f (x # xs) =
     (case f x of Inl e \<Rightarrow> Inl e
      | Inr y \<Rightarrow> (case map_err f xs of Inl e \<Rightarrow> Inl e | Inr ys \<Rightarrow> Inr (y # ys)))"

text \<open>\<^verbatim>\<open>xs[i]\<close> for \<open>i \<ge> 0\<close>.\<close>

definition getitem :: "'a list \<Rightarrow> nat \<Rightarrow> error + 'a" where
  "getitem xs i = (if i < length xs then Inr (xs ! i) else Inl IndexError)"

text \<open>\<^verbatim>\<open>xs.pop(i)\<close> for \<open>i \<ge> 0\<close>, and \<^verbatim>\<open>xs.pop(-1)\<close>: the element and the list left.\<close>

definition pop :: "'a list \<Rightarrow> nat \<Rightarrow> error + ('a \<times> 'a list)" where
  "pop xs i =
     (if i < length xs then Inr (xs ! i, take i xs @ drop (Suc i) xs) else Inl IndexError)"

definition pop_last :: "'a list \<Rightarrow> error + ('a \<times> 'a list)" where
  "pop_last xs = (if xs = [] then Inl IndexError else Inr (last xs, butlast xs))"

text \<open>\<^verbatim>\<open>xs.index(v)\<close>: the first position of \<open>v\<close>.\<close>

definition py_index :: "'a list \<Rightarrow> 'a \<Rightarrow> error + nat" where
  "py_index xs v =
     (if v \<in> set xs then Inr (length (takeWhile (\<lambda>x. x \<noteq> v) xs)) else Inl ValueError)"

text \<open>\<^verbatim>\<open>np.max(xs)\<close> raises on an empty sequence.\<close>

definition np_max :: "real list \<Rightarrow> error + real" where
  "np_max xs = (if xs = [] then Inl ValueError else Inr (Max (set xs)))"

text \<open>\<^verbatim>\<open>np.where(mask)[0]\<close>: the positions that hold \<open>True\<close>, ascending.\<close>

definition np_where :: "bool list \<Rightarrow> nat list" where
  "np_where msk = filter (\<lambda>i. msk ! i) [0..<length msk]"

text \<open>\<^verbatim>\<open>xs.take(idxs)\<close> along the first axis.\<close>

definition np_take :: "'a list \<Rightarrow> nat list \<Rightarrow> error + 'a list" where
  "np_take xs idxs = map_err (getitem xs) idxs"

text \<open>\<^verbatim>\<open>np.unique(xs)\<close>, and with \<^verbatim>\<open>return_counts=True\<close>.\<close>

definition np_unique :: "nat list \<Rightarrow> nat list" where
  "np_unique xs = sort (remdups xs)"

definition np_unique_counts :: "nat list \<Rightarrow> (nat \<times> nat) list" where
  "np_unique_counts xs = map (\<lambda>u. (u, count_list xs u)) (np_unique xs)"

text \<open>The three vertex indices of a triangle, in storage order.\<close>

fun tnodes :: "tria \<Rightarrow> nat list" where
  "tnodes (a, b, c) = [a, b, c]"

section \<open>Boundary extraction: \<^verbatim>\<open>sort_edges\<close>\<close>

text \<open>
  \<^verbatim>\<open>edges.pop(idx)\<close> in a branch of the loop and \<^verbatim>\<open>e0.pop(idx); e1.pop(idx)\<close> at
  the end of the same pass, for \<open>idx \<ge> 0\<close> and for \<open>idx = -1\<close>.
\<close>

definition pop3 ::
  "edge list \<Rightarrow> nat list \<Rightarrow> nat list \<Rightarrow> nat \<Rightarrow> error + (edge \<times> edge list \<times> nat list \<times> nat list)" where
  "pop3 edges e0 e1 idx =
     err_bind (pop edges idx) (\<lambda>(ed, edges').
     err_bind (pop e0 idx) (\<lambda>(u0, e0').
     err_bind (pop e1 idx) (\<lambda>(u1, e1'). Inr (ed, edges', e0', e1'))))"

definition pop3_last ::
  "edge list \<Rightarrow> nat list \<Rightarrow> nat list \<Rightarrow> error + (edge \<times> edge list \<times> nat list \<times> nat list)" where
  "pop3_last edges e0 e1 =
     err_bind (pop_last edges) (\<lambda>(ed, edges').
     err_bind (pop_last e0) (\<lambda>(u0, e0').
     err_bind (pop_last e1) (\<lambda>(u1, e1'). Inr (ed, edges', e0', e1'))))"

text \<open>\<^verbatim>\<open>list(reversed(edge))\<close>.\<close>

definition reversed_edge :: "edge \<Rightarrow> edge" where
  "reversed_edge ed = (snd ed, fst ed)"

text \<open>
  One pass of the \<^verbatim>\<open>while len(edges) > 0\<close> loop of \<^verbatim>\<open>sort_edges\<close>. The state is
  the lists the source mutates: \<open>edges\<close>, its two columns \<open>e0\<close> and \<open>e1\<close>, the open
  chain \<open>ordered\<close> (\<^verbatim>\<open>ordered_edges\<close>) and the finished chains \<open>coll\<close>
  (\<^verbatim>\<open>edge_collection\<close>). The four extension branches are tried in the source's order:
  tail to a start, head to an end, tail to an end (edge reversed), head to a start (edge
  reversed); the last branch closes the chain and opens a new one from the last edge.
\<close>

definition sort_edges_step ::
  "edge list \<Rightarrow> nat list \<Rightarrow> nat list \<Rightarrow> edge list \<Rightarrow> ring list
    \<Rightarrow> error + (edge list \<times> nat list \<times> nat list \<times> edge list \<times> ring list)" where
  "sort_edges_step edges e0 e1 ordered coll =
     (if ordered = [] then Inl IndexError
      else if snd (last ordered) \<in> set e0 then
        err_bind (py_index e0 (snd (last ordered))) (\<lambda>idx.
        err_bind (pop3 edges e0 e1 idx) (\<lambda>(ed, edges', e0', e1').
          Inr (edges', e0', e1', ordered @ [ed], coll)))
      else if fst (hd ordered) \<in> set e1 then
        err_bind (py_index e1 (fst (hd ordered))) (\<lambda>idx.
        err_bind (pop3 edges e0 e1 idx) (\<lambda>(ed, edges', e0', e1').
          Inr (edges', e0', e1', ed # ordered, coll)))
      else if snd (last ordered) \<in> set e1 then
        err_bind (py_index e1 (snd (last ordered))) (\<lambda>idx.
        err_bind (pop3 edges e0 e1 idx) (\<lambda>(ed, edges', e0', e1').
          Inr (edges', e0', e1', ordered @ [reversed_edge ed], coll)))
      else if fst (hd ordered) \<in> set e0 then
        err_bind (py_index e0 (fst (hd ordered))) (\<lambda>idx.
        err_bind (pop3 edges e0 e1 idx) (\<lambda>(ed, edges', e0', e1').
          Inr (edges', e0', e1', reversed_edge ed # ordered, coll)))
      else
        err_bind (pop3_last edges e0 e1) (\<lambda>(ed, edges', e0', e1').
          Inr (edges', e0', e1', [ed], coll @ [ordered])))"

lemma err_bind_Inr [simp]: "err_bind (Inr x) f = f x"
  by (simp add: err_bind_def)

lemma err_bind_Inl [simp]: "err_bind (Inl e) f = Inl e"
  by (simp add: err_bind_def)

lemma err_bind_eq_Inr: "err_bind m f = Inr y \<longleftrightarrow> (\<exists>x. m = Inr x \<and> f x = Inr y)"
  by (cases m) simp_all

lemma pop_length: "pop xs i = Inr (x, xs') \<Longrightarrow> length xs = Suc (length xs')"
  by (auto simp: pop_def split: if_splits)

lemma pop_last_length: "pop_last xs = Inr (x, xs') \<Longrightarrow> length xs = Suc (length xs')"
  by (auto simp: pop_last_def split: if_splits)

lemma pop3_length:
  "pop3 edges e0 e1 idx = Inr (ed, edges', e0', e1') \<Longrightarrow> length edges = Suc (length edges')"
  unfolding pop3_def
  by (auto simp: err_bind_eq_Inr dest: pop_length)

lemma pop3_last_length:
  "pop3_last edges e0 e1 = Inr (ed, edges', e0', e1') \<Longrightarrow> length edges = Suc (length edges')"
  unfolding pop3_last_def
  by (auto simp: err_bind_eq_Inr dest: pop_last_length)

lemma sort_edges_step_length:
  "sort_edges_step edges e0 e1 ordered coll = Inr (edges', e0', e1', ordered', coll')
    \<Longrightarrow> length edges' < length edges"
  unfolding sort_edges_step_def
  by (auto simp: err_bind_eq_Inr split: if_splits dest: pop3_length pop3_last_length)

function sort_edges_loop ::
  "edge list \<Rightarrow> nat list \<Rightarrow> nat list \<Rightarrow> edge list \<Rightarrow> ring list \<Rightarrow> error + ring list" where
  "sort_edges_loop edges e0 e1 ordered coll =
     (if edges = [] then Inr (coll @ [ordered])
      else (case sort_edges_step edges e0 e1 ordered coll of
              Inl e \<Rightarrow> Inl e
            | Inr (edges', e0', e1', ordered', coll') \<Rightarrow>
                sort_edges_loop edges' e0' e1' ordered' coll'))"
  by pat_completeness auto
termination sort_edges_loop
  by (relation "measure (\<lambda>(edges, e0, e1, ordered, coll). length edges)")
     (auto dest: sort_edges_step_length)

text \<open>
  \<^verbatim>\<open>sort_edges\<close>: an empty edge list is returned as it is; otherwise the last edge
  opens the first chain. \<^verbatim>\<open>e0, e1 = [list(t) for t in zip(*edges)]\<close> unpacks two
  columns, and raises \<^verbatim>\<open>ValueError\<close> when no edge is left after the first pop. After
  the loop the open chain is appended in both branches of the final \<^verbatim>\<open>if\<close>.
\<close>

definition sort_edges :: "edge list \<Rightarrow> error + ring list" where
  "sort_edges edges =
     (if edges = [] then Inr []
      else err_bind (pop_last edges) (\<lambda>(ed, edges').
        if edges' = [] then Inl ValueError
        else sort_edges_loop edges' (map fst edges') (map snd edges') [ed] []))"

section \<open>Ring classification: \<^verbatim>\<open>index_ring_collection\<close>\<close>

text \<open>\<^verbatim>\<open>mesh_to_tri\<close>: the triangulation of the vertex coordinates and \<^verbatim>\<open>tria3['index']\<close>.\<close>

definition mesh_to_tri :: "extlib \<Rightarrow> mesh \<Rightarrow> error + triangulation" where
  "mesh_to_tri L m =
     Triangulation L (map (\<lambda>v. fst (fst v)) (vert2 m)) (map (\<lambda>v. snd (fst v)) (vert2 m))
       (map fst (tria3 m))"

text \<open>
  \<^verbatim>\<open>np.where(tri.neighbors == -1)\<close>, stacked into rows \<open>(i, j)\<close>: the positions of
  \<open>-1\<close> in row-major order.
\<close>

definition neighbors_where :: "(int \<times> int \<times> int) list \<Rightarrow> (nat \<times> nat) list" where
  "neighbors_where nbrs =
     concat (map (\<lambda>(i, (n0, n1, n2)).
        (if n0 = -1 then [(i, 0)] else []) @
        (if n1 = -1 then [(i, 1)] else []) @
        (if n2 = -1 then [(i, 2)] else [])) (enumerate 0 nbrs))"

text \<open>
  The boundary edges of \<^verbatim>\<open>index_ring_collection\<close>: for each \<open>(i, j)\<close> the edge
  \<^verbatim>\<open>(tri.triangles[i, j], tri.triangles[i, (j+1) % 3])\<close>.
\<close>

definition boundary_edges :: "triangulation \<Rightarrow> error + edge list" where
  "boundary_edges T =
     map_err (\<lambda>(i, j).
        err_bind (getitem (tri_triangles T) i) (\<lambda>t.
          Inr (tnodes t ! j, tnodes t ! ((j + 1) mod 3))))
       (neighbors_where (tri_neighbors T))"

text \<open>The rings that \<^verbatim>\<open>index_ring_collection\<close> classifies: \<^verbatim>\<open>sort_edges(boundary_edges)\<close>.\<close>

definition boundary_rings :: "extlib \<Rightarrow> mesh \<Rightarrow> error + ring list" where
  "boundary_rings L m =
     err_bind (mesh_to_tri L m) (\<lambda>T. err_bind (boundary_edges T) (\<lambda>be. sort_edges be))"

text \<open>
  \<^verbatim>\<open>e0, e1 = [list(t) for t in zip(*index_ring)]\<close>; only \<open>e0\<close> is read afterwards. The
  unpacking raises \<^verbatim>\<open>ValueError\<close> for a ring with no edge.
\<close>

definition ring_e0 :: "ring \<Rightarrow> error + nat list" where
  "ring_e0 r = (if r = [] then Inl ValueError else Inr (map fst r))"

text \<open>\<^verbatim>\<open>float(Polygon(vertices[e0, :]).area)\<close>.\<close>

definition ring_area :: "extlib \<Rightarrow> point list \<Rightarrow> ring \<Rightarrow> error + real" where
  "ring_area L vs r =
     err_bind (ring_e0 r) (\<lambda>e0. err_bind (np_take vs e0) (\<lambda>pts. Polygon_area L pts []))"

text \<open>The vertices of \<^verbatim>\<open>Path(vertices[e0 + [e0[0]], :], closed=True)\<close>.\<close>

definition ring_path :: "point list \<Rightarrow> ring \<Rightarrow> error + point list" where
  "ring_path vs r = err_bind (ring_e0 r) (\<lambda>e0. np_take vs (e0 @ [hd e0]))"

text \<open>\<^verbatim>\<open>vertices[e0[0], :]\<close> after the unpacking, and \<^verbatim>\<open>vertices[ring[0][0], :]\<close>.\<close>

definition ring_first_point :: "point list \<Rightarrow> ring \<Rightarrow> error + point" where
  "ring_first_point vs r = err_bind (ring_e0 r) (\<lambda>e0. getitem vs (hd e0))"

definition ring_first_point' :: "point list \<Rightarrow> ring \<Rightarrow> error + point" where
  "ring_first_point' vs r = (if r = [] then Inl IndexError else getitem vs (fst (hd r)))"

text \<open>A polygon of \<^verbatim>\<open>_index_ring_collection\<close>: \<^verbatim>\<open>{'exterior': ..., 'interiors': [...]}\<close>.\<close>

record region =
  exterior :: ring
  interiors :: "ring list"

text \<open>
  Lines 247-257 and 287-296: the ring of maximum area is popped as the next exterior,
  its area is popped too, and the closed path of the exterior is built.
\<close>

definition next_exterior ::
  "point list \<Rightarrow> ring list \<Rightarrow> real list \<Rightarrow> error + (ring \<times> point list \<times> ring list \<times> real list)" where
  "next_exterior vs coll areas =
     err_bind (np_max areas) (\<lambda>mx.
     err_bind (py_index areas mx) (\<lambda>idx.
     err_bind (pop coll idx) (\<lambda>(ext, coll').
     err_bind (pop areas idx) (\<lambda>(a, areas').
     err_bind (ring_path vs ext) (\<lambda>path. Inr (ext, path, coll', areas'))))))"

text \<open>
  \<^verbatim>\<open>potential_interiors\<close>: the positions of the rings of the pool whose first vertex
  the exterior's path contains.
\<close>

definition potential_interiors ::
  "extlib \<Rightarrow> point list \<Rightarrow> point list \<Rightarrow> ring list \<Rightarrow> error + nat list" where
  "potential_interiors L vs path coll =
     err_bind (map_err (ring_first_point vs) coll) (\<lambda>ps.
       Inr (map fst (filter (\<lambda>(i, p). Path_contains L path p) (enumerate 0 ps))))"

text \<open>
  \<^verbatim>\<open>has_parent\<close> for the candidate at position \<open>i\<close> of \<open>pot\<close>, the ring \<open>coll ! p\<close>:
  whether the path of another candidate contains its first vertex. The other candidates
  are visited in reverse order.
\<close>

definition has_parent ::
  "extlib \<Rightarrow> point list \<Rightarrow> ring list \<Rightarrow> nat list \<Rightarrow> nat \<Rightarrow> nat \<Rightarrow> error + bool" where
  "has_parent L vs coll pot i p =
     err_bind
       (map_err (\<lambda>(j, q).
          err_bind (ring_path vs (coll ! q)) (\<lambda>path.
          err_bind (ring_first_point' vs (coll ! p)) (\<lambda>pt. Inr (Path_contains L path pt))))
        (filter (\<lambda>(j, q). i \<noteq> j) (rev (enumerate 0 pot))))
       (\<lambda>hits. Inr (list_ex (\<lambda>b. b) hits))"

text \<open>\<^verbatim>\<open>real_interiors\<close>: the candidates with no parent, in reverse order of \<open>pot\<close>.\<close>

definition real_interiors ::
  "extlib \<Rightarrow> point list \<Rightarrow> ring list \<Rightarrow> nat list \<Rightarrow> error + nat list" where
  "real_interiors L vs coll pot =
     err_bind
       (map_err (\<lambda>(i, p). err_bind (has_parent L vs coll pot i p) (\<lambda>hp. Inr (p, hp)))
          (rev (enumerate 0 pot)))
       (\<lambda>xs. Inr (map fst (filter (\<lambda>(p, hp). \<not> hp) xs)))"

text \<open>
  \<^verbatim>\<open>for i in reversed(sorted(real_interiors))\<close>: each ring is popped from the pool and
  appended to the interiors, and its area is popped.
\<close>

fun pop_interiors ::
  "nat list \<Rightarrow> ring list \<Rightarrow> real list \<Rightarrow> ring list \<Rightarrow> error + (ring list \<times> ring list \<times> real list)" where
  "pop_interiors [] coll areas ints = Inr (ints, coll, areas)"
| "pop_interiors (i # is) coll areas ints =
     (case pop coll i of Inl e \<Rightarrow> Inl e
      | Inr (r, coll') \<Rightarrow>
          (case pop areas i of Inl e \<Rightarrow> Inl e
           | Inr (a, areas') \<Rightarrow> pop_interiors is coll' areas' (ints @ [r])))"

text \<open>
  The first half of one pass of the \<^verbatim>\<open>while len(index_ring_collection) > 0\<close> loop:
  the interiors found for the current exterior, and the pool and areas left.
\<close>

definition claim_interiors ::
  "extlib \<Rightarrow> point list \<Rightarrow> point list \<Rightarrow> ring list \<Rightarrow> real list
    \<Rightarrow> error + (ring list \<times> ring list \<times> real list)" where
  "claim_interiors L vs path coll areas =
     err_bind (potential_interiors L vs path coll) (\<lambda>pot.
     err_bind (real_interiors L vs coll pot) (\<lambda>re.
       pop_interiors (rev (sort re)) coll areas []))"

lemma pop_interiors_length:
  "pop_interiors is coll areas ints = Inr (ints', coll', areas') \<Longrightarrow> length coll' \<le> length coll"
proof (induction "is" arbitrary: coll areas ints)
  case Nil
  then show ?case by simp
next
  case (Cons i "is")
  from Cons.prems obtain r c1 a1 where
    p: "pop coll i = Inr (r, c1)" and
    rest: "pop_interiors is c1 a1 (ints @ [r]) = Inr (ints', coll', areas')"
    by (auto split: sum.splits prod.splits)
  from Cons.IH [OF rest] pop_length [OF p] show ?case by simp
qed

lemma claim_interiors_length:
  "claim_interiors L vs path coll areas = Inr (ints, coll', areas') \<Longrightarrow> length coll' \<le> length coll"
  unfolding claim_interiors_def
  by (auto simp: err_bind_eq_Inr dest: pop_interiors_length)

lemma next_exterior_length:
  "next_exterior vs coll areas = Inr (ext, path, coll', areas') \<Longrightarrow> length coll = Suc (length coll')"
  unfolding next_exterior_def
  by (auto simp: err_bind_eq_Inr dest: pop_length)

text \<open>
  The \<^verbatim>\<open>while len(index_ring_collection) > 0\<close> loop. \<open>fin\<close> holds the finished
  polygons and \<open>cur\<close> the polygon of the current \<^verbatim>\<open>_id\<close>; the result is the dictionary's
  values in key order, together with the pool as the loop leaves it.
\<close>

function index_ring_loop ::
  "extlib \<Rightarrow> point list \<Rightarrow> ring list \<Rightarrow> real list \<Rightarrow> point list \<Rightarrow> region list \<Rightarrow> region
    \<Rightarrow> error + (region list \<times> ring list)" where
  "index_ring_loop L vs coll areas path fin cur =
     (if coll = [] then Inr (fin @ [cur], coll)
      else (case claim_interiors L vs path coll areas of
              Inl e \<Rightarrow> Inl e
            | Inr (ints, coll1, areas1) \<Rightarrow>
                (if coll1 = [] then
                   Inr (fin @ [cur\<lparr>interiors := interiors cur @ ints\<rparr>], coll1)
                 else (case next_exterior vs coll1 areas1 of
                         Inl e \<Rightarrow> Inl e
                       | Inr (ext, path', coll2, areas2) \<Rightarrow>
                           index_ring_loop L vs coll2 areas2 path'
                             (fin @ [cur\<lparr>interiors := interiors cur @ ints\<rparr>])
                             \<lparr>exterior = ext, interiors = []\<rparr>))))"
  by pat_completeness auto
termination index_ring_loop
  by (relation "measure (\<lambda>(L, vs, coll, areas, path, fin, cur). length coll)")
     (auto dest!: claim_interiors_length next_exterior_length)

text \<open>
  \<^verbatim>\<open>index_ring_collection\<close>: the boundary rings, their areas, the first exterior, and
  the classification loop; the instrumented version also returns the pool left.
\<close>

definition index_ring_collection' :: "extlib \<Rightarrow> mesh \<Rightarrow> error + (region list \<times> ring list)" where
  "index_ring_collection' L m =
     err_bind (boundary_rings L m) (\<lambda>rings.
     err_bind (map_err (ring_area L (map fst (vert2 m))) rings) (\<lambda>areas.
     err_bind (next_exterior (map fst (vert2 m)) rings areas) (\<lambda>(ext, path, coll, areas').
       index_ring_loop L (map fst (vert2 m)) coll areas' path []
         \<lparr>exterior = ext, interiors = []\<rparr>)))"

definition index_ring_collection :: "extlib \<Rightarrow> mesh \<Rightarrow> error + region list" where
  "index_ring_collection L m = err_bind (index_ring_collection' L m) (\<lambda>(regs, pool). Inr regs)"

text \<open>\<^verbatim>\<open>outer_ring_collection\<close> and \<^verbatim>\<open>inner_ring_collection\<close>: the dictionary's values.\<close>

definition outer_ring_collection :: "extlib \<Rightarrow> mesh \<Rightarrow> error + ring list" where
  "outer_ring_collection L m = err_bind (index_ring_collection L m) (\<lambda>regs. Inr (map exterior regs))"

definition inner_ring_collection :: "extlib \<Rightarrow> mesh \<Rightarrow> error + ring list list" where
  "inner_ring_collection L m = err_bind (index_ring_collection L m) (\<lambda>regs. Inr (map interiors regs))"

section \<open>Mesh operations\<close>

text \<open>
  The renumbering loop of \<^verbatim>\<open>cleanup_isolates\<close> and \<^verbatim>\<open>sieve\<close>:
  \<^verbatim>\<open>for idx in reversed(tria3_idxs): tria3[np.where(tria3 >= idx)] -= 1\<close>, on one
  index of the flattened table. \<open>idxs\<close> is the list already reversed.
\<close>

definition renumber :: "nat list \<Rightarrow> nat \<Rightarrow> nat" where
  "renumber idxs v = fold (\<lambda>idx w. if w \<ge> idx then w - 1 else w) idxs v"

definition map_tria :: "(nat \<Rightarrow> nat) \<Rightarrow> tria \<Rightarrow> tria" where
  "map_tria f t = (f (fst t), f (fst (snd t)), f (snd (snd t)))"

text \<open>\<^verbatim>\<open>np.unique(mesh.tria3['index'])\<close>.\<close>

definition used_indexes :: "mesh \<Rightarrow> nat list" where
  "used_indexes m = np_unique (concat (map (\<lambda>t. tnodes (fst t)) (tria3 m)))"

text \<open>
  \<^verbatim>\<open>cleanup_isolates\<close>: \<open>vert2_idxs\<close> are the vertices some triangle uses and
  \<open>tria3_idxs\<close> the ones none uses; the triangle table is renumbered, and the vertex
  and value arrays keep the used vertices.
\<close>

definition cleanup_isolates :: "mesh \<Rightarrow> error + mesh" where
  "cleanup_isolates m =
     (let node_indexes = [0..<length (vert2 m)];
          vert2_idxs = np_where (map (\<lambda>i. i \<in> set (used_indexes m)) node_indexes);
          tria3_idxs = np_where (map (\<lambda>i. i \<notin> set (used_indexes m)) node_indexes);
          tria3' = map (\<lambda>t. (map_tria (renumber (rev tria3_idxs)) (fst t), snd t)) (tria3 m)
      in err_bind (np_take (vert2 m) vert2_idxs) (\<lambda>v2.
         err_bind (if length (value' m) > 0 then np_take (value' m) vert2_idxs
                   else Inr (value' m)) (\<lambda>val.
           Inr (m\<lparr>vert2 := v2, value' := val, tria3 := tria3'\<rparr>))))"

text \<open>
  \<^verbatim>\<open>geom_to_multipolygon\<close>: for each polygon of the ring collection the coordinates of
  its exterior and of its interiors, as given to \<^verbatim>\<open>Polygon\<close>.
\<close>

definition geom_to_multipolygon :: "extlib \<Rightarrow> mesh \<Rightarrow> error + (point list \<times> point list list) list" where
  "geom_to_multipolygon L m =
     err_bind (index_ring_collection L m) (\<lambda>regs.
       map_err (\<lambda>polygon.
          err_bind (np_take (map fst (vert2 m)) (map fst (exterior polygon))) (\<lambda>ext.
          err_bind (map_err (\<lambda>interior. np_take (map fst (vert2 m)) (map fst interior))
                      (interiors polygon)) (\<lambda>ints. Inr (ext, ints))))
        regs)"

text \<open>\<^verbatim>\<open>areas = [polygon.area for polygon in geom_to_multipolygon(mesh)]\<close>.\<close>

definition polygon_areas :: "extlib \<Rightarrow> (point list \<times> point list list) list \<Rightarrow> error + real list" where
  "polygon_areas L multipolygon = map_err (\<lambda>(shell, holes). Polygon_area L shell holes) multipolygon"

text \<open>
  The list \<^verbatim>\<open>remove\<close> of \<^verbatim>\<open>needs_sieve\<close> (lines 67-73) and \<^verbatim>\<open>sieve\<close> (lines
  120-126): with no threshold the positions of the areas below the maximum, with a
  threshold the positions of the areas at or below it.
\<close>

definition remove_indexes :: "real list \<Rightarrow> real option \<Rightarrow> error + nat list" where
  "remove_indexes areas area =
     (case area of
        None \<Rightarrow> err_bind (np_max areas) (\<lambda>mx. Inr (np_where (map (\<lambda>a. a < mx) areas)))
      | Some thr \<Rightarrow>
          Inr (map fst (filter (\<lambda>(idx, patch_area). patch_area \<le> thr) (enumerate 0 areas))))"

definition needs_sieve :: "extlib \<Rightarrow> mesh \<Rightarrow> real option \<Rightarrow> error + bool" where
  "needs_sieve L m area =
     err_bind (geom_to_multipolygon L m) (\<lambda>multipolygon.
     err_bind (polygon_areas L multipolygon) (\<lambda>areas.
     err_bind (remove_indexes areas area) (\<lambda>remove. Inr (length remove > 0))))"

text \<open>\<^verbatim>\<open>put_IDtags\<close>: tags \<open>1, 2, ...\<close> in storage order.\<close>

definition put_tags :: "('a \<times> int) list \<Rightarrow> ('a \<times> int) list" where
  "put_tags xs = map (\<lambda>(i, x). (fst x, int i + 1)) (enumerate 0 xs)"

definition put_IDtags :: "mesh \<Rightarrow> mesh" where
  "put_IDtags m =
     m\<lparr>vert2 := put_tags (vert2 m), tria3 := put_tags (tria3 m),
       quad4 := put_tags (quad4 m), hexa8 := put_tags (hexa8 m)\<rparr>"

text \<open>\<^verbatim>\<open>itertools.permutations(simplex, 2)\<close>: the ordered pairs of two different positions.\<close>

definition permutations2 :: "'a list \<Rightarrow> ('a \<times> 'a) list" where
  "permutations2 s =
     concat (map (\<lambda>p. map (\<lambda>q. (s ! p, s ! q)) (filter (\<lambda>q. q \<noteq> p) [0..<length s]))
       [0..<length s])"

text \<open>
  \<^verbatim>\<open>vertices_around_vertex\<close>: the \<^verbatim>\<open>defaultdict(set)\<close> as a list of (key, members),
  keys in order of first insertion, over the elements of \<open>tria3\<close>, \<open>quad4\<close> and
  \<open>hexa8\<close>.
\<close>

definition vertices_around_vertex :: "mesh \<Rightarrow> error + (nat \<times> nat list) list" where
  "vertices_around_vertex m =
     (if mshID m = ''euclidean-mesh'' then
        (let pairs = concat (map permutations2
               (map (\<lambda>t. tnodes (fst t)) (tria3 m) @ map fst (quad4 m) @ map fst (hexa8 m)))
         in Inr (map (\<lambda>i. (i, remdups (map snd (filter (\<lambda>ij. fst ij = i) pairs))))
                  (remdups (map fst pairs))))
      else Inl NotImplementedError)"

text \<open>\<^verbatim>\<open>d[key]\<close> on the \<^verbatim>\<open>defaultdict(set)\<close>: a missing key reads as the empty set.\<close>

definition dd_get :: "(nat \<times> nat list) list \<Rightarrow> nat \<Rightarrow> nat list" where
  "dd_get d k = (case map_of d k of None \<Rightarrow> [] | Some ns \<Rightarrow> ns)"

text \<open>\<^verbatim>\<open>mask[idxs] = True\<close>: an index out of range raises.\<close>

definition mask_set :: "bool list \<Rightarrow> nat list \<Rightarrow> error + bool list" where
  "mask_set msk idxs =
     (if list_all (\<lambda>i. i < length msk) idxs then Inr (fold (\<lambda>i ms. ms[i := True]) idxs msk)
      else Inl IndexError)"

fun mask_set_all :: "bool list \<Rightarrow> nat list list \<Rightarrow> error + bool list" where
  "mask_set_all msk [] = Inr msk"
| "mask_set_all msk (idxs # rest) =
     (case mask_set msk idxs of Inl e \<Rightarrow> Inl e | Inr msk' \<Rightarrow> mask_set_all msk' rest)"

text \<open>
  Lines 117-145 of \<^verbatim>\<open>sieve\<close>: the vertex mask. The vertices that the closed path of a
  removed polygon's exterior contains, then the neighbours of the vertices marked so far
  (the list \<^verbatim>\<open>_idxs\<close> is taken before the loop), then every key of the neighbour table
  with at most two neighbours. Reading the \<^verbatim>\<open>defaultdict\<close> at a marked vertex that
  no element uses adds it as a key with no neighbour; the last loop then marks it again,
  which changes nothing, so these keys are not modelled.
\<close>

definition sieve_mask :: "extlib \<Rightarrow> mesh \<Rightarrow> real option \<Rightarrow> error + bool list" where
  "sieve_mask L m area =
     err_bind (geom_to_multipolygon L m) (\<lambda>multipolygon.
     err_bind (polygon_areas L multipolygon) (\<lambda>areas.
     err_bind (remove_indexes areas area) (\<lambda>remove.
     err_bind (vertices_around_vertex m) (\<lambda>node_neighbors.
       (let contained = fold (\<lambda>idx msk.
                map (\<lambda>(b, v). b \<or> Path_contains L (exterior_coords L (fst (multipolygon ! idx))) v)
                  (zip msk (map fst (vert2 m))))
              remove (replicate (length (vert2 m)) False)
        in err_bind (mask_set_all contained
                       (map (dd_get node_neighbors) (np_where contained))) (\<lambda>spread.
           mask_set spread
             (map fst (filter (\<lambda>kv. length (snd kv) \<le> 2) node_neighbors))))))))"

text \<open>
  Lines 147-177 of \<^verbatim>\<open>sieve\<close>: the triangles with a marked vertex are dropped; the
  vertices that no triangle of the table as it was on entry uses are dropped, with their
  values; the indices of the triangles kept are renumbered.
\<close>

definition sieve_apply :: "mesh \<Rightarrow> bool list \<Rightarrow> error + mesh" where
  "sieve_apply m vert2_mask =
     err_bind (map_err (\<lambda>t. err_bind (map_err (getitem vert2_mask) (tnodes (fst t)))
                               (\<lambda>bs. Inr (list_ex (\<lambda>b. b) bs))) (tria3 m)) (\<lambda>tria3_mask.
       (let node_indexes = [0..<length (vert2 m)];
            tria3_idxs = np_where (map (\<lambda>i. i \<notin> set (used_indexes m)) node_indexes);
            vert2_idxs = np_where (map (\<lambda>i. i \<in> set (used_indexes m)) node_indexes)
        in err_bind (np_take (tria3 m) (np_where (map Not tria3_mask))) (\<lambda>kept.
           err_bind (np_take (vert2 m) vert2_idxs) (\<lambda>v2.
           err_bind (if length (value' m) > 0 then np_take (value' m) vert2_idxs
                     else Inr (value' m)) (\<lambda>val.
             Inr (m\<lparr>vert2 := v2, value' := val,
                     tria3 := map (\<lambda>t. (map_tria (renumber (rev tria3_idxs)) (fst t), snd t))
                                kept\<rparr>))))))"

definition sieve :: "extlib \<Rightarrow> mesh \<Rightarrow> real option \<Rightarrow> error + mesh" where
  "sieve L m area = err_bind (sieve_mask L m area) (\<lambda>vert2_mask. sieve_apply m vert2_mask)"

text \<open>
  \<^verbatim>\<open>all_nodes\<close> of \<^verbatim>\<open>has_pinched_nodes\<close> and \<^verbatim>\<open>cleanup_pinched_nodes\<close>: the first
  column of every interior ring of every polygon, concatenated.
\<close>

definition all_nodes :: "ring list list \<Rightarrow> nat list" where
  "all_nodes irc = concat (map (\<lambda>inner_rings. concat (map (map fst) inner_rings)) irc)"

text \<open>\<^verbatim>\<open>u[c > 1]\<close> for \<^verbatim>\<open>u, c = np.unique(all_nodes, return_counts=True)\<close>.\<close>

definition pinched_nodes :: "nat list \<Rightarrow> nat list" where
  "pinched_nodes nodes = map fst (filter (\<lambda>uc. snd uc > 1) (np_unique_counts nodes))"

definition has_pinched_nodes :: "extlib \<Rightarrow> mesh \<Rightarrow> error + bool" where
  "has_pinched_nodes L m =
     err_bind (inner_ring_collection L m) (\<lambda>irc.
       Inr (length (pinched_nodes (all_nodes irc)) > 0))"

text \<open>
  \<^verbatim>\<open>cleanup_pinched_nodes\<close>: the rows of \<open>tria3\<close> none of whose indices is a pinched
  node are taken; nothing else of the mesh is assigned.
\<close>

definition cleanup_pinched_nodes :: "extlib \<Rightarrow> mesh \<Rightarrow> error + mesh" where
  "cleanup_pinched_nodes L m =
     err_bind (inner_ring_collection L m) (\<lambda>irc.
     err_bind (np_take (tria3 m)
        (np_where (map (\<lambda>t. \<not> list_ex (\<lambda>v. v \<in> set (pinched_nodes (all_nodes irc)))
                               (tnodes (fst t))) (tria3 m)))) (\<lambda>ts.
       Inr (m\<lparr>tria3 := ts\<rparr>)))"

text \<open>
  \<^verbatim>\<open>finalize_mesh\<close>. The loop test is \<^verbatim>\<open>needs_sieve(mesh) or has_pinched_nodes(mesh)\<close>:
  \<^verbatim>\<open>needs_sieve\<close> is called with its default \<^verbatim>\<open>area=None\<close>, and \<^verbatim>\<open>or\<close> does not
  evaluate its second operand when the first is true. The loop has no bound, so it is a
  partial function: \<open>None\<close> stands for a run that does not return.
\<close>

definition finalize_test :: "extlib \<Rightarrow> mesh \<Rightarrow> error + bool" where
  "finalize_test L m =
     err_bind (needs_sieve L m None) (\<lambda>ns. if ns then Inr True else has_pinched_nodes L m)"

definition finalize_body :: "extlib \<Rightarrow> real option \<Rightarrow> mesh \<Rightarrow> error + mesh" where
  "finalize_body L sieve_area m =
     err_bind (cleanup_pinched_nodes L m) (\<lambda>m1. sieve L m1 sieve_area)"

partial_function (option) finalize_loop ::
  "extlib \<Rightarrow> real option \<Rightarrow> mesh \<Rightarrow> (error + mesh) option" where
  "finalize_loop L sieve_area m =
     (case finalize_test L m of
        Inl e \<Rightarrow> Some (Inl e)
      | Inr again \<Rightarrow>
          if again then
            (case finalize_body L sieve_area m of
               Inl e \<Rightarrow> Some (Inl e)
             | Inr m' \<Rightarrow> finalize_loop L sieve_area m')
          else Some (Inr m))"

definition finalize_mesh :: "extlib \<Rightarrow> mesh \<Rightarrow> real option \<Rightarrow> (error + mesh) option" where
  "finalize_mesh L m sieve_area =
     (case cleanup_isolates m of
        Inl e \<Rightarrow> Some (Inl e)
      | Inr m0 \<Rightarrow>
          (case finalize_loop L sieve_area m0 of
             None \<Rightarrow> None
           | Some (Inl e) \<Rightarrow> Some (Inl e)
           | Some (Inr m1) \<Rightarrow> Some (Inr (put_IDtags m1))))"

section \<open>Gradient limiter: \<^verbatim>\<open>limgrad\<close>\<close>

text \<open>A loop whose body can raise, over a state.\<close>

fun fold_err :: "('a \<Rightarrow> 's \<Rightarrow> error + 's) \<Rightarrow> 'a list \<Rightarrow> 's \<Rightarrow> error + 's" where
  "fold_err f [] st = Inr st"
| "fold_err f (x # xs) st =
     (case f x st of Inl e \<Rightarrow> Inl e | Inr st' \<Rightarrow> fold_err f xs st')"

text \<open>\<^verbatim>\<open>np.min(xs)\<close> raises on an empty array.\<close>

definition np_min :: "real list \<Rightarrow> error + real" where
  "np_min xs = (if xs = [] then Inl ValueError else Inr (Min (set xs)))"

text \<open>\<^verbatim>\<open>np.finfo(float).eps\<close>.\<close>

definition float_eps :: real where
  "float_eps = 1 / 2 ^ 52"

text \<open>
  \<^verbatim>\<open>elen\<close>: the length of each edge of \<^verbatim>\<open>tri.edges\<close>, in the order of that table.
\<close>

definition edge_lengths :: "triangulation \<Rightarrow> error + real list" where
  "edge_lengths T =
     map_err (\<lambda>e.
        err_bind (getitem (zip (tri_x T) (tri_y T)) (fst e)) (\<lambda>p.
        err_bind (getitem (zip (tri_x T) (tri_y T)) (snd e)) (\<lambda>q.
          Inr (sqrt ((fst p - fst q)\<^sup>2 + (snd p - snd q)\<^sup>2)))))
       (tri_edges T)"

text \<open>
  \<^verbatim>\<open>for adj_edge in point_neighbors[v]\<close>: the set receives the second components of the
  ordered pairs of every triangle that start at \<open>v\<close>, in that order, and is read in the
  order in which the platform iterates it.
\<close>

definition point_neighbors :: "extlib \<Rightarrow> tria list \<Rightarrow> nat \<Rightarrow> nat list" where
  "point_neighbors L ts v =
     set_iter L (map snd (filter (\<lambda>ij. fst ij = v)
                            (concat (map (\<lambda>t. permutations2 (tnodes t)) ts))))"

text \<open>
  The body of the innermost loop, for the active index and one member of its neighbour
  set. The state is \<open>(ffun, aset)\<close>. Both branches read \<^verbatim>\<open>elen[active_idx]\<close>.
\<close>

definition relax ::
  "real \<Rightarrow> real \<Rightarrow> real list \<Rightarrow> nat \<Rightarrow> nat \<Rightarrow> nat \<Rightarrow> real list \<times> nat list
    \<Rightarrow> error + (real list \<times> nat list)" where
  "relax dfdx ftol elen iter active_idx adj_edge st =
     err_bind (getitem (fst st) adj_edge) (\<lambda>f_adj.
     err_bind (getitem (fst st) active_idx) (\<lambda>f_act.
     err_bind (getitem elen active_idx) (\<lambda>len.
       if f_adj > f_act then
         (if f_adj > f_act + len * dfdx + ftol
          then Inr ((fst st)[adj_edge := f_act + len * dfdx], (snd st)[adj_edge := iter])
          else Inr st)
       else
         (if f_act > f_adj + len * dfdx + ftol
          then Inr ((fst st)[active_idx := f_adj + len * dfdx], (snd st)[active_idx := iter])
          else Inr st))))"

text \<open>
  One pass of the outer loop once the active set \<open>aidx\<close> is not empty:
  \<^verbatim>\<open>active_idxs = np.argsort(ffun[aidx])\<close> are positions within \<open>aidx\<close>, and the loop
  uses each of them as a vertex index.
\<close>

definition limgrad_pass ::
  "extlib \<Rightarrow> real \<Rightarrow> real \<Rightarrow> real list \<Rightarrow> tria list \<Rightarrow> nat \<Rightarrow> nat list
    \<Rightarrow> real list \<times> nat list \<Rightarrow> error + (real list \<times> nat list)" where
  "limgrad_pass L dfdx ftol elen ts iter aidx st =
     err_bind (np_take (fst st) aidx) (\<lambda>vals.
       fold_err (\<lambda>active_idx.
          fold_err (relax dfdx ftol elen iter active_idx) (point_neighbors L ts active_idx))
         (argsort L vals) st)"

text \<open>
  \<^verbatim>\<open>for _iter in range(1, imax+1)\<close> with \<open>n\<close> passes left and \<open>_iter = k\<close> next. The
  result carries the value \<open>_iter\<close> holds after the loop: \<open>k\<close> when the loop breaks on
  an empty active set, the last value of the range when the range is used up.
\<close>

fun limgrad_loop ::
  "extlib \<Rightarrow> real \<Rightarrow> real \<Rightarrow> real list \<Rightarrow> tria list \<Rightarrow> nat \<Rightarrow> nat \<Rightarrow> real list \<times> nat list
    \<Rightarrow> error + (nat \<times> real list \<times> nat list)" where
  "limgrad_loop L dfdx ftol elen ts 0 k st = Inr (k - 1, st)"
| "limgrad_loop L dfdx ftol elen ts (Suc n) k st =
     (if np_where (map (\<lambda>a. a = k - 1) (snd st)) = [] then Inr (k, st)
      else (case limgrad_pass L dfdx ftol elen ts k
                   (np_where (map (\<lambda>a. a = k - 1) (snd st))) st of
              Inl e \<Rightarrow> Inl e
            | Inr st' \<Rightarrow> limgrad_loop L dfdx ftol elen ts n (Suc k) st'))"

text \<open>
  The smoothing loop and the test after it. With \<open>imax < 1\<close> the range is empty and
  \<^verbatim>\<open>_iter\<close> is not bound when the test reads it.
\<close>

definition limgrad_core ::
  "extlib \<Rightarrow> real list \<Rightarrow> tria list \<Rightarrow> real list \<Rightarrow> real \<Rightarrow> real \<Rightarrow> int
    \<Rightarrow> error + real list" where
  "limgrad_core L elen ts ffun ftol dfdx imax =
     (if imax < 1 then Inl UnboundLocalError
      else err_bind (limgrad_loop L dfdx ftol elen ts (nat imax) 1
                       (ffun, replicate (length ffun) 0)) (\<lambda>(iter, st).
             if \<not> int iter < imax then Inl (DidNotConverge imax) else Inr (fst st)))"

definition limgrad :: "extlib \<Rightarrow> mesh \<Rightarrow> real \<Rightarrow> int \<Rightarrow> error + real list" where
  "limgrad L m dfdx imax =
     err_bind (mesh_to_tri L m) (\<lambda>T.
     err_bind (edge_lengths T) (\<lambda>elen.
     err_bind (np_min (value' m)) (\<lambda>mn.
       limgrad_core L elen (tri_triangles T) (value' m) (mn * sqrt float_eps) dfdx imax)))"

section \<open>A reference library\<close>

text \<open>
  A concrete library, used where a theorem is evaluated at a concrete mesh. It follows
  the documented behaviour of the three calls on well-formed input.
\<close>

text \<open>
  \<^verbatim>\<open>signed_polygon_area\<close> of the source (the shoelace formula): the loop adds
  \<open>x\<^sub>i y\<^sub>j - x\<^sub>j y\<^sub>i\<close> for \<open>j = (i + 1) mod n\<close>, and the sum is halved.
\<close>

definition signed_polygon_area :: "point list \<Rightarrow> real" where
  "signed_polygon_area vertices =
     fold (\<lambda>i area.
        area + fst (vertices ! i) * snd (vertices ! ((i + 1) mod length vertices))
             - fst (vertices ! ((i + 1) mod length vertices)) * snd (vertices ! i))
       [0..<length vertices] 0 / 2"

text \<open>
  shapely's \<^verbatim>\<open>Polygon(shell, holes).area\<close>: the area of the shell less the areas of
  the holes; a ring of one or two points is refused.
\<close>

definition ref_area :: "point list \<Rightarrow> point list list \<Rightarrow> error + real" where
  "ref_area shell holes =
     (if list_ex (\<lambda>r. r \<noteq> [] \<and> length r < 3) (shell # holes) then Inl ValueError
      else Inr (\<bar>signed_polygon_area shell\<bar>
                - sum_list (map (\<lambda>h. \<bar>signed_polygon_area h\<bar>) holes)))"

text \<open>shapely's \<^verbatim>\<open>exterior.coords\<close>: the shell, closed when it is not.\<close>

definition ref_coords :: "point list \<Rightarrow> point list" where
  "ref_coords shell =
     (if shell = [] then [] else if last shell = hd shell then shell else shell @ [hd shell])"

text \<open>
  matplotlib's \<^verbatim>\<open>contains_point\<close> for a closed polygon: a ray to the right of the point
  crosses an odd number of segments. A segment from \<open>(x0, y0)\<close> to \<open>(x1, y1)\<close> is
  crossed when its ends lie on different sides of the ray's line and the crossing is to
  the right.
\<close>

definition ref_crosses :: "point \<Rightarrow> point \<Rightarrow> point \<Rightarrow> bool" where
  "ref_crosses p a b =
     (((snd a \<ge> snd p) \<noteq> (snd b \<ge> snd p)) \<and>
      (((snd b - snd p) * (fst a - fst b) \<ge> (fst b - fst p) * (snd a - snd b))
         = (snd b \<ge> snd p)))"

definition ref_contains :: "point list \<Rightarrow> point \<Rightarrow> bool" where
  "ref_contains path p =
     odd (length (filter (\<lambda>(a, b). ref_crosses p a b) (zip path (tl path))))"

text \<open>
  matplotlib's \<^verbatim>\<open>Triangulation\<close>: an empty triangle table or an index out of range is
  refused; a clockwise triangle has its last two indices swapped; the neighbour across
  the edge from corner \<open>j\<close> to corner \<open>j + 1\<close> is the triangle with the opposite
  directed edge, or \<open>-1\<close>; the edges are the pairs (larger index, smaller index), sorted.
\<close>

definition ref_orient :: "real list \<Rightarrow> real list \<Rightarrow> tria \<Rightarrow> tria" where
  "ref_orient xs ys t =
     (case t of (a, b, c) \<Rightarrow>
        if (xs ! b - xs ! a) * (ys ! c - ys ! a) - (ys ! b - ys ! a) * (xs ! c - xs ! a) < 0
        then (a, c, b) else (a, b, c))"

definition directed_edges :: "tria \<Rightarrow> edge list" where
  "directed_edges t = (case t of (a, b, c) \<Rightarrow> [(a, b), (b, c), (c, a)])"

definition ref_neighbor :: "tria list \<Rightarrow> edge \<Rightarrow> int" where
  "ref_neighbor ts e =
     (case filter (\<lambda>k. (snd e, fst e) \<in> set (directed_edges (ts ! k))) [0..<length ts] of
        [] \<Rightarrow> -1
      | k # ks \<Rightarrow> int k)"

definition ref_neighbors :: "tria list \<Rightarrow> (int \<times> int \<times> int) list" where
  "ref_neighbors ts =
     map (\<lambda>t. case t of (a, b, c) \<Rightarrow>
            (ref_neighbor ts (a, b), ref_neighbor ts (b, c), ref_neighbor ts (c, a))) ts"

definition ref_edges :: "tria list \<Rightarrow> edge list" where
  "ref_edges ts =
     sort (remdups (map (\<lambda>e. (max (fst e) (snd e), min (fst e) (snd e)))
                      (concat (map directed_edges ts))))"

definition ref_Triangulation :: "real list \<Rightarrow> real list \<Rightarrow> tria list \<Rightarrow> error + triangulation" where
  "ref_Triangulation xs ys ts =
     (if ts = [] \<or> list_ex (\<lambda>t. list_ex (\<lambda>v. v \<ge> length xs) (tnodes t)) ts then Inl ValueError
      else Inr \<lparr>tri_x = xs, tri_y = ys, tri_triangles = map (ref_orient xs ys) ts,
                tri_neighbors = ref_neighbors (map (ref_orient xs ys) ts),
                tri_edges = ref_edges (map (ref_orient xs ys) ts)\<rparr>)"

text \<open>
  \<^verbatim>\<open>np.argsort\<close> with equal values kept in order of position, and a set read in
  ascending order. The meshes evaluated below have no two equal field values and no
  index above 7, where numpy and CPython give these orders.
\<close>

definition ref_argsort :: "real list \<Rightarrow> nat list" where
  "ref_argsort xs = map snd (sort_key fst (zip xs [0..<length xs]))"

definition ref_set_iter :: "nat list \<Rightarrow> nat list" where
  "ref_set_iter xs = sort (remdups xs)"

definition reflib :: extlib where
  "reflib = \<lparr>Triangulation = ref_Triangulation, Polygon_area = ref_area,
             exterior_coords = ref_coords, Path_contains = ref_contains,
             argsort = ref_argsort, set_iter = ref_set_iter\<rparr>"

text \<open>
  A square of side 2 cut into four triangles around its centre, with values 1 to 5.
\<close>

definition square_mesh :: mesh where
  "square_mesh =
     \<lparr>mshID = ''euclidean-mesh'',
      vert2 = [((0, 0), 0), ((2, 0), 0), ((2, 2), 0), ((0, 2), 0), ((1, 1), 0)],
      tria3 = [((0, 1, 4), 0), ((1, 2, 4), 0), ((2, 3, 4), 0), ((3, 0, 4), 0)],
      quad4 = [], hexa8 = [],
      value' = [1, 2, 3, 4, 5]\<rparr>"

text \<open>The square with one triangle floating apart from it.\<close>

definition floating_mesh :: mesh where
  "floating_mesh =
     \<lparr>mshID = ''euclidean-mesh'',
      vert2 = [((0, 0), 0), ((2, 0), 0), ((2, 2), 0), ((0, 2), 0), ((1, 1), 0),
               ((10, 0), 0), ((11, 0), 0), ((10, 1), 0)],
      tria3 = [((0, 1, 4), 0), ((1, 2, 4), 0), ((2, 3, 4), 0), ((3, 0, 4), 0), ((5, 6, 7), 0)],
      quad4 = [], hexa8 = [],
      value' = [1, 2, 3, 4, 5, 6, 7, 8]\<rparr>"



text \<open>
  Four points on a line and the four faces of a tetrahedron on them: every directed
  edge has its opposite, so the triangulation has no boundary edge.
\<close>

definition closed_mesh :: mesh where
  "closed_mesh =
     \<lparr>mshID = ''euclidean-mesh'',
      vert2 = [((0, 0), 0), ((1, 0), 0), ((2, 0), 0), ((3, 0), 0)],
      tria3 = [((0, 1, 3), 0), ((1, 2, 3), 0), ((2, 0, 3), 0), ((0, 2, 1), 0)],
      quad4 = [], hexa8 = [],
      value' = []\<rparr>"

text \<open>
  A rectangle with two triangular holes that touch at vertex 0: the holes are
  \<open>(0, 1, 2)\<close> and \<open>(0, 3, 4)\<close>, the rectangle's corners are 5 to 8.
\<close>

definition bowtie_mesh :: mesh where
  "bowtie_mesh =
     \<lparr>mshID = ''euclidean-mesh'',
      vert2 = [((0, 0), 0), ((-2, 1), 0), ((-2, -1), 0), ((2, -1), 0), ((2, 1), 0),
               ((-4, -3), 0), ((4, -3), 0), ((4, 3), 0), ((-4, 3), 0)],
      tria3 = [((0, 4, 1), 0), ((1, 4, 7), 0), ((1, 7, 8), 0), ((1, 8, 5), 0), ((1, 5, 2), 0),
               ((0, 2, 3), 0), ((2, 5, 6), 0), ((2, 6, 3), 0), ((3, 6, 7), 0), ((3, 7, 4), 0)],
      quad4 = [], hexa8 = [],
      value' = [1, 2, 3, 4, 5, 6, 7, 8, 9]\<rparr>"

text \<open>
  One right triangle with legs 4 and 3 and the field \<open>[0, 10, 20]\<close>; its edge table is
  \<open>[(1, 0), (2, 0), (2, 1)]\<close>, of lengths 4, 3 and 5.
\<close>

definition tri_mesh :: mesh where
  "tri_mesh =
     \<lparr>mshID = ''euclidean-mesh'',
      vert2 = [((0, 0), 0), ((4, 0), 0), ((0, 3), 0)],
      tria3 = [((0, 1, 2), 0)],
      quad4 = [], hexa8 = [],
      value' = [0, 10, 20]\<rparr>"

text \<open>
  The square and the floating triangle again, with one vertex (index 2) that no triangle
  uses.
\<close>

definition isolate_mesh :: mesh where
  "isolate_mesh =
     \<lparr>mshID = ''euclidean-mesh'',
      vert2 = [((0, 0), 0), ((2, 0), 0), ((5, 5), 0), ((2, 2), 0), ((0, 2), 0), ((1, 1), 0),
               ((10, 0), 0), ((11, 0), 0), ((10, 1), 0)],
      tria3 = [((0, 1, 5), 7), ((1, 3, 5), 7), ((3, 4, 5), 7), ((4, 0, 5), 7), ((6, 7, 8), 7)],
      quad4 = [], hexa8 = [],
      value' = [1, 2, 3, 4, 5, 6, 7, 8, 9]\<rparr>"

text \<open>
  Two squares apart from each other, of sides 2 and 4; every vertex has three or four
  neighbours.
\<close>

definition uneven_mesh :: mesh where
  "uneven_mesh =
     \<lparr>mshID = ''euclidean-mesh'',
      vert2 = [((0, 0), 0), ((2, 0), 0), ((2, 2), 0), ((0, 2), 0), ((1, 1), 0),
               ((10, 0), 0), ((14, 0), 0), ((14, 4), 0), ((10, 4), 0), ((12, 2), 0)],
      tria3 = [((0, 1, 4), 0), ((1, 2, 4), 0), ((2, 3, 4), 0), ((3, 0, 4), 0),
               ((5, 6, 9), 0), ((6, 7, 9), 0), ((7, 8, 9), 0), ((8, 5, 9), 0)],
      quad4 = [], hexa8 = [],
      value' = []\<rparr>"

section \<open>Predicates of the specification\<close>

text \<open>The data-model invariant: the value array is as long as the vertex array.\<close>

definition value_aligned :: "mesh \<Rightarrow> bool" where
  "value_aligned m = (length (value' m) = length (vert2 m))"

text \<open>The rings that a ring collection holds, exteriors and interiors, as a multiset.\<close>

definition region_rings :: "region list \<Rightarrow> ring multiset" where
  "region_rings regs = mset (map exterior regs) + mset (concat (map interiors regs))"


declare finalize_loop.simps [code]

section \<open>Lemmas on the primitives\<close>

lemma map_err_length: "map_err f xs = Inr ys \<Longrightarrow> length ys = length xs"
  by (induction xs arbitrary: ys) (auto split: sum.splits)

lemma map_err_total:
  "list_all (\<lambda>x. f x = Inr (g x)) xs \<Longrightarrow> map_err f xs = Inr (map g xs)"
  by (induction xs) auto

lemma np_take_length: "np_take xs idxs = Inr ys \<Longrightarrow> length ys = length idxs"
  unfolding np_take_def by (rule map_err_length)

lemma np_take_in_range:
  "list_all (\<lambda>i. i < length xs) idxs \<Longrightarrow> np_take xs idxs = Inr (map (\<lambda>i. xs ! i) idxs)"
  unfolding np_take_def
  by (rule map_err_total) (simp add: list_all_iff getitem_def)

lemma np_where_map: "np_where (map P xs) = filter (\<lambda>i. P (xs ! i)) [0..<length xs]"
  unfolding np_where_def by (auto intro: filter_cong)

lemma nth_filter_upt: "map (\<lambda>i. xs ! i) (filter (\<lambda>i. P (xs ! i)) [0..<length xs]) = filter P xs"
proof -
  have "filter P (map (\<lambda>i. xs ! i) [0..<length xs]) = filter P xs"
    by (simp add: map_nth)
  then show ?thesis by (simp add: filter_map comp_def)
qed

text \<open>Taking the rows where a mask holds is filtering, in the original order.\<close>

lemma np_take_where: "np_take xs (np_where (map P xs)) = Inr (filter P xs)"
proof -
  have "list_all (\<lambda>i. i < length xs) (np_where (map P xs))"
    by (simp add: np_where_map list_all_iff)
  then have "np_take xs (np_where (map P xs)) = Inr (map (\<lambda>i. xs ! i) (np_where (map P xs)))"
    by (rule np_take_in_range)
  then show ?thesis by (simp add: np_where_map nth_filter_upt)
qed

lemma pop_mset: "pop xs i = Inr (x, xs') \<Longrightarrow> mset xs = add_mset x (mset xs')"
proof -
  assume "pop xs i = Inr (x, xs')"
  then have i: "i < length xs" and x: "x = xs ! i" and xs': "xs' = take i xs @ drop (Suc i) xs"
    by (auto simp: pop_def split: if_splits)
  from i have "xs = take i xs @ xs ! i # drop (Suc i) xs"
    by (simp add: id_take_nth_drop)
  then have "mset xs = mset (take i xs @ xs ! i # drop (Suc i) xs)" by simp
  with x xs' show ?thesis by simp
qed

section \<open>Pinch repair\<close>

text \<open>The nodes \<^verbatim>\<open>u[c > 1]\<close> are the values that occur more than once.\<close>

lemma set_pinched_nodes: "set (pinched_nodes nodes) = {v. count_list nodes v > 1}"
proof -
  have "count_list nodes v > 1 \<Longrightarrow> v \<in> set nodes" for v
    by (metis count_notin not_less_zero)
  then show ?thesis
    unfolding pinched_nodes_def np_unique_counts_def np_unique_def
    by (auto simp: image_iff)
qed

lemma cleanup_pinched_nodes_eq:
  assumes "inner_ring_collection L m = Inr irc"
  shows "cleanup_pinched_nodes L m =
    Inr (m\<lparr>tria3 := filter (\<lambda>t. \<not> list_ex (\<lambda>v. count_list (all_nodes irc) v > 1)
                                  (tnodes (fst t))) (tria3 m)\<rparr>)"
  unfolding cleanup_pinched_nodes_def
  by (simp add: assms np_take_where set_pinched_nodes)

lemma cleanup_pinched_nodes_Inr:
  "cleanup_pinched_nodes L m = Inr m' \<Longrightarrow> \<exists>irc. inner_ring_collection L m = Inr irc"
  unfolding cleanup_pinched_nodes_def by (auto simp: err_bind_eq_Inr)

text \<open>
  C7. Whenever the interior rings of the mesh can be computed, \<^verbatim>\<open>cleanup_pinched_nodes\<close>
  returns, and the triangle array it leaves is the original one filtered: a triangle
  stays exactly when none of its three indices occurs more than once among the first
  columns of all interior rings of all polygons (\<open>all_nodes\<close>), and the triangles that
  stay keep their relative order.
\<close>

theorem cleanup_pinched_nodes_removes_exactly:
  assumes "inner_ring_collection L m = Inr irc"
  shows "\<exists>m'. cleanup_pinched_nodes L m = Inr m' \<and>
           tria3 m' = filter (\<lambda>t. \<not> list_ex (\<lambda>v. count_list (all_nodes irc) v > 1)
                                     (tnodes (fst t))) (tria3 m)"
  using cleanup_pinched_nodes_eq [OF assms] by simp

text \<open>
  At the rectangle with two holes touching at vertex 0, vertex 0 occurs in both interior
  rings, and the two triangles at vertex 0 are the ones removed.
\<close>

theorem cleanup_pinched_nodes_removes_exactly_witness:
  "inner_ring_collection reflib bowtie_mesh
      = Inr [[[(0, 2), (2, 1), (1, 0)], [(4, 3), (3, 0), (0, 4)]]] \<and>
   (\<exists>m'. cleanup_pinched_nodes reflib bowtie_mesh = Inr m' \<and>
      tria3 m' = [((1, 4, 7), 0), ((1, 7, 8), 0), ((1, 8, 5), 0), ((1, 5, 2), 0),
                  ((2, 5, 6), 0), ((2, 6, 3), 0), ((3, 6, 7), 0), ((3, 7, 4), 0)])"
proof -
  have h: "inner_ring_collection reflib bowtie_mesh
      = Inr [[[(0, 2), (2, 1), (1, 0)], [(4, 3), (3, 0), (0, 4)]]]"
    by code_simp
  have f: "filter (\<lambda>t. \<not> list_ex (\<lambda>v. count_list
               (all_nodes [[[(0, 2), (2, 1), (1, 0)], [(4, 3), (3, 0), (0, 4)]]]) v > 1)
               (tnodes (fst t))) (tria3 bowtie_mesh)
      = [((1, 4, 7), 0), ((1, 7, 8), 0), ((1, 8, 5), 0), ((1, 5, 2), 0),
         ((2, 5, 6), 0), ((2, 6, 3), 0), ((3, 6, 7), 0), ((3, 7, 4), 0)]"
    by code_simp
  from cleanup_pinched_nodes_removes_exactly [OF h] show ?thesis
    using h f by simp
qed

text \<open>
  C10. \<^verbatim>\<open>cleanup_pinched_nodes\<close> assigns only the triangle array: the vertex array, the
  value array and every other field are the ones of the input, and the triangle array
  left is a subsequence of the original (rows are dropped, none is rewritten, so no index
  is renumbered). A vertex that only dropped triangles used is therefore still in the
  vertex array.
\<close>

theorem cleanup_pinched_nodes_frame:
  assumes "cleanup_pinched_nodes L m = Inr m'"
  shows "vert2 m' = vert2 m \<and> value' m' = value' m \<and> quad4 m' = quad4 m \<and>
         hexa8 m' = hexa8 m \<and> mshID m' = mshID m \<and> subseq (tria3 m') (tria3 m)"
proof -
  from cleanup_pinched_nodes_Inr [OF assms] obtain irc where
    "inner_ring_collection L m = Inr irc" ..
  from cleanup_pinched_nodes_eq [OF this] assms
  have "m' = m\<lparr>tria3 := filter (\<lambda>t. \<not> list_ex (\<lambda>v. count_list (all_nodes irc) v > 1)
                                    (tnodes (fst t))) (tria3 m)\<rparr>"
    by simp
  then show ?thesis by simp
qed

text \<open>
  At the rectangle with two touching holes the two triangles at vertex 0 go; vertex 0
  stays in the vertex array with its value, and no triangle left uses it.
\<close>

theorem cleanup_pinched_nodes_frame_witness:
  "cleanup_pinched_nodes reflib bowtie_mesh
     = Inr (bowtie_mesh\<lparr>tria3 :=
         [((1, 4, 7), 0), ((1, 7, 8), 0), ((1, 8, 5), 0), ((1, 5, 2), 0),
          ((2, 5, 6), 0), ((2, 6, 3), 0), ((3, 6, 7), 0), ((3, 7, 4), 0)]\<rparr>) \<and>
   vert2 (bowtie_mesh\<lparr>tria3 :=
         [((1, 4, 7), 0), ((1, 7, 8), 0), ((1, 8, 5), 0), ((1, 5, 2), 0),
          ((2, 5, 6), 0), ((2, 6, 3), 0), ((3, 6, 7), 0), ((3, 7, 4), 0)]\<rparr>) = vert2 bowtie_mesh \<and>
   subseq [((1, 4, 7), 0), ((1, 7, 8), 0), ((1, 8, 5), 0), ((1, 5, 2), 0),
           ((2, 5, 6), 0), ((2, 6, 3), 0), ((3, 6, 7), 0), ((3, 7, 4), 0 :: int)]
          (tria3 bowtie_mesh)"
proof -
  have h: "cleanup_pinched_nodes reflib bowtie_mesh
     = Inr (bowtie_mesh\<lparr>tria3 :=
         [((1, 4, 7), 0), ((1, 7, 8), 0), ((1, 8, 5), 0), ((1, 5, 2), 0),
          ((2, 5, 6), 0), ((2, 6, 3), 0), ((3, 6, 7), 0), ((3, 7, 4), 0)]\<rparr>)"
    by code_simp
  from cleanup_pinched_nodes_frame [OF h] show ?thesis
    using h by simp
qed

section \<open>Ring classification partitions the boundary rings\<close>

lemma pop_interiors_mset:
  "pop_interiors is coll areas ints = Inr (ints', coll', areas')
    \<Longrightarrow> mset coll + mset ints = mset coll' + mset ints'"
proof (induction "is" arbitrary: coll areas ints)
  case Nil
  then show ?case by simp
next
  case (Cons i "is")
  from Cons.prems obtain r c1 a1 where
    p: "pop coll i = Inr (r, c1)" and
    rest: "pop_interiors is c1 a1 (ints @ [r]) = Inr (ints', coll', areas')"
    by (auto split: sum.splits prod.splits)
  from Cons.IH [OF rest] pop_mset [OF p] show ?case by simp
qed

lemma claim_interiors_mset:
  "claim_interiors L vs path coll areas = Inr (ints, coll', areas')
    \<Longrightarrow> mset coll = mset coll' + mset ints"
  unfolding claim_interiors_def
  by (auto simp: err_bind_eq_Inr dest: pop_interiors_mset)

lemma next_exterior_mset:
  "next_exterior vs coll areas = Inr (ext, path, coll', areas')
    \<Longrightarrow> mset coll = add_mset ext (mset coll')"
  unfolding next_exterior_def
  by (auto simp: err_bind_eq_Inr dest: pop_mset)

lemma region_rings_append: "region_rings (xs @ ys) = region_rings xs + region_rings ys"
  by (simp add: region_rings_def)

lemma region_rings_Cons:
  "region_rings (r # rs) = add_mset (exterior r) (mset (interiors r)) + region_rings rs"
  by (simp add: region_rings_def)

lemma region_rings_Nil: "region_rings [] = {#}"
  by (simp add: region_rings_def)

lemmas region_rings_simps = region_rings_append region_rings_Cons region_rings_Nil

text \<open>
  The loop invariant: the rings already in a polygon together with the pool are the
  rings the loop started from; the loop returns with the pool empty.
\<close>

lemma index_ring_loop_partition:
  "index_ring_loop L vs coll areas path fin cur = Inr (regs, pool)
    \<Longrightarrow> pool = [] \<and> region_rings regs = region_rings (fin @ [cur]) + mset coll"
proof (induction L vs coll areas path fin cur rule: index_ring_loop.induct)
  case (1 L vs coll areas path fin cur)
  show ?case
  proof (cases "coll = []")
    case True
    with "1.prems" show ?thesis by simp
  next
    case False
    with "1.prems" obtain ints coll1 areas1 where
      ci: "claim_interiors L vs path coll areas = Inr (ints, coll1, areas1)"
      by (auto split: sum.splits)
    note m1 = claim_interiors_mset [OF ci]
    show ?thesis
    proof (cases "coll1 = []")
      case True
      with "1.prems" False ci m1 show ?thesis
        by (auto simp: region_rings_simps)
    next
      case ne: False
      with "1.prems" False ci obtain ext path' coll2 areas2 where
        nx: "next_exterior vs coll1 areas1 = Inr (ext, path', coll2, areas2)"
        by (auto split: sum.splits)
      with "1.prems" False ci ne have rec:
        "index_ring_loop L vs coll2 areas2 path' (fin @ [cur\<lparr>interiors := interiors cur @ ints\<rparr>])
           \<lparr>exterior = ext, interiors = []\<rparr> = Inr (regs, pool)"
        by simp
      from "1.IH" [OF False ci refl refl ne nx refl refl refl rec]
      have "pool = []" and
        "region_rings regs =
           region_rings ((fin @ [cur\<lparr>interiors := interiors cur @ ints\<rparr>])
                          @ [\<lparr>exterior = ext, interiors = []\<rparr>])
           + mset coll2"
        by simp_all
      with m1 next_exterior_mset [OF nx] show ?thesis
        by (simp add: region_rings_simps)
    qed
  qed
qed

lemma index_ring_collection'_partition:
  assumes "index_ring_collection' L m = Inr (regs, pool)"
  shows "\<exists>rings. boundary_rings L m = Inr rings \<and> pool = [] \<and> region_rings regs = mset rings"
proof -
  from assms obtain rings areas ext path coll areas' where
    br: "boundary_rings L m = Inr rings"
    and nx: "next_exterior (map fst (vert2 m)) rings areas = Inr (ext, path, coll, areas')"
    and lp: "index_ring_loop L (map fst (vert2 m)) coll areas' path []
               \<lparr>exterior = ext, interiors = []\<rparr> = Inr (regs, pool)"
    unfolding index_ring_collection'_def
    by (auto simp: err_bind_eq_Inr)
  from index_ring_loop_partition [OF lp] next_exterior_mset [OF nx] br
  show ?thesis by (simp add: region_rings_simps)
qed

text \<open>
  C8. When \<^verbatim>\<open>index_ring_collection\<close> returns, the boundary rings were extracted, and
  the exteriors of its polygons together with all their interiors are exactly the
  extracted rings, each as often as it was extracted (equality of multisets): no ring is
  lost, none is used twice, as an exterior or as a hole. The classification loop ends
  with its pool empty.
\<close>

theorem index_ring_collection_partitions:
  assumes "index_ring_collection L m = Inr regs"
  shows "\<exists>rings. boundary_rings L m = Inr rings \<and>
           mset (map exterior regs) + mset (concat (map interiors regs)) = mset rings \<and>
           index_ring_collection' L m = Inr (regs, [])"
proof -
  from assms obtain pool where p: "index_ring_collection' L m = Inr (regs, pool)"
    unfolding index_ring_collection_def by (auto simp: err_bind_eq_Inr)
  from index_ring_collection'_partition [OF p] p show ?thesis
    by (auto simp: region_rings_def)
qed

text \<open>
  At the rectangle with two touching holes three rings are extracted; the rectangle is
  the exterior of the one polygon and the two triangles are its interiors.
\<close>

theorem index_ring_collection_partitions_witness:
  "index_ring_collection reflib bowtie_mesh
     = Inr [\<lparr>exterior = [(6, 7), (7, 8), (8, 5), (5, 6)],
             interiors = [[(0, 2), (2, 1), (1, 0)], [(4, 3), (3, 0), (0, 4)]]\<rparr>] \<and>
   boundary_rings reflib bowtie_mesh
     = Inr [[(4, 3), (3, 0), (0, 4)], [(6, 7), (7, 8), (8, 5), (5, 6)],
            [(0, 2), (2, 1), (1, 0)]] \<and>
   index_ring_collection' reflib bowtie_mesh
     = Inr ([\<lparr>exterior = [(6, 7), (7, 8), (8, 5), (5, 6)],
              interiors = [[(0, 2), (2, 1), (1, 0)], [(4, 3), (3, 0), (0, 4)]]\<rparr>], [])"
proof -
  have h: "index_ring_collection reflib bowtie_mesh
     = Inr [\<lparr>exterior = [(6, 7), (7, 8), (8, 5), (5, 6)],
             interiors = [[(0, 2), (2, 1), (1, 0)], [(4, 3), (3, 0), (0, 4)]]\<rparr>]"
    by code_simp
  have b: "boundary_rings reflib bowtie_mesh
     = Inr [[(4, 3), (3, 0), (0, 4)], [(6, 7), (7, 8), (8, 5), (5, 6)],
            [(0, 2), (2, 1), (1, 0)]]"
    by code_simp
  from index_ring_collection_partitions [OF h] show ?thesis
    using h b by simp
qed

section \<open>The value array stays aligned with the vertex array\<close>

lemma take_both_aligned:
  assumes al: "length vals = length verts"
    and v2: "np_take verts (np_where (map P [0..<length verts])) = Inr v2"
    and val: "(if length vals > 0 then np_take vals (np_where (map P [0..<length verts]))
              else Inr vals) = Inr val"
  shows "length val = length v2"
proof (cases "length vals > 0")
  case True
  with val have "np_take vals (np_where (map P [0..<length verts])) = Inr val" by simp
  then show ?thesis using v2 by (simp add: np_take_length)
next
  case False
  with al have e: "verts = []" "vals = []" by auto
  with val have "val = []" by simp
  moreover from v2 e have "v2 = []" by (simp add: np_where_def np_take_def)
  ultimately show ?thesis by simp
qed

lemma cleanup_isolates_aligned:
  assumes "value_aligned m" and "cleanup_isolates m = Inr m'"
  shows "value_aligned m'"
proof -
  from assms(2) obtain v2 val where
    v2: "np_take (vert2 m)
           (np_where (map (\<lambda>i. i \<in> set (used_indexes m)) [0..<length (vert2 m)])) = Inr v2"
    and val: "(if length (value' m) > 0
               then np_take (value' m)
                      (np_where (map (\<lambda>i. i \<in> set (used_indexes m)) [0..<length (vert2 m)]))
               else Inr (value' m)) = Inr val"
    and m': "vert2 m' = v2" "value' m' = val"
    unfolding cleanup_isolates_def Let_def
    by (auto simp: err_bind_eq_Inr)
  from assms(1) have "length (value' m) = length (vert2 m)" by (simp add: value_aligned_def)
  from take_both_aligned [OF this v2 val] m' show ?thesis by (simp add: value_aligned_def)
qed

lemma sieve_apply_aligned:
  assumes "value_aligned m" and "sieve_apply m msk = Inr m'"
  shows "value_aligned m'"
proof -
  from assms(2) obtain v2 val where
    v2: "np_take (vert2 m)
           (np_where (map (\<lambda>i. i \<in> set (used_indexes m)) [0..<length (vert2 m)])) = Inr v2"
    and val: "(if length (value' m) > 0
               then np_take (value' m)
                      (np_where (map (\<lambda>i. i \<in> set (used_indexes m)) [0..<length (vert2 m)]))
               else Inr (value' m)) = Inr val"
    and m': "vert2 m' = v2" "value' m' = val"
    unfolding sieve_apply_def Let_def
    by (auto simp: err_bind_eq_Inr)
  from assms(1) have "length (value' m) = length (vert2 m)" by (simp add: value_aligned_def)
  from take_both_aligned [OF this v2 val] m' show ?thesis by (simp add: value_aligned_def)
qed

lemma sieve_aligned:
  "value_aligned m \<Longrightarrow> sieve L m area = Inr m' \<Longrightarrow> value_aligned m'"
  unfolding sieve_def by (auto simp: err_bind_eq_Inr dest: sieve_apply_aligned)

lemma cleanup_pinched_nodes_aligned:
  assumes "value_aligned m" and "cleanup_pinched_nodes L m = Inr m'"
  shows "value_aligned m'"
proof -
  from cleanup_pinched_nodes_Inr [OF assms(2)] obtain irc where
    "inner_ring_collection L m = Inr irc" ..
  from cleanup_pinched_nodes_eq [OF this] assms show ?thesis
    by (auto simp: value_aligned_def)
qed

lemma put_IDtags_aligned: "value_aligned m \<Longrightarrow> value_aligned (put_IDtags m)"
  by (simp add: value_aligned_def put_IDtags_def put_tags_def)

lemma finalize_body_aligned:
  "value_aligned m \<Longrightarrow> finalize_body L a m = Inr m' \<Longrightarrow> value_aligned m'"
  unfolding finalize_body_def
  by (auto simp: err_bind_eq_Inr dest: cleanup_pinched_nodes_aligned sieve_aligned)

text \<open>The repair loop, by induction on a run that returns.\<close>

lemma finalize_loop_aligned:
  assumes "finalize_loop L a m = Some r"
  shows "value_aligned m \<longrightarrow> (\<forall>m'. r = Inr m' \<longrightarrow> value_aligned m')"
  using assms
proof (induction rule: finalize_loop.raw_induct [rotated 1, consumes 1, case_names step])
  case (step loop L a m r)
  show ?case
  proof (intro impI allI)
    fix m'
    assume al: "value_aligned m" and r: "r = Inr m'"
    show "value_aligned m'"
    proof (cases "finalize_test L m")
      case (Inl e)
      with step(2) r show ?thesis by simp
    next
      case (Inr again)
      show ?thesis
      proof (cases again)
        case False
        with step(2) Inr r al show ?thesis by simp
      next
        case True
        show ?thesis
        proof (cases "finalize_body L a m")
          case (Inl e)
          with step(2) Inr True r show ?thesis by simp
        next
          case body: (Inr m1)
          with step(2) Inr True have "loop L a m1 = Some r" by simp
          moreover from al body have "value_aligned m1" by (rule finalize_body_aligned)
          ultimately show ?thesis using step(1) r by blast
        qed
      qed
    qed
  qed
qed

lemma finalize_mesh_aligned:
  assumes "value_aligned m" and "finalize_mesh L m a = Some (Inr m')"
  shows "value_aligned m'"
proof -
  from assms(2) obtain m0 m1 where
    a: "cleanup_isolates m = Inr m0" and b: "finalize_loop L a m0 = Some (Inr m1)"
    and c: "m' = put_IDtags m1"
    unfolding finalize_mesh_def by (auto split: sum.splits option.splits)
  from assms(1) a have "value_aligned m0" by (rule cleanup_isolates_aligned)
  with b have "value_aligned m1" by (auto dest: finalize_loop_aligned)
  with c show ?thesis by (simp add: put_IDtags_aligned)
qed

text \<open>
  C9. On a mesh whose value array is as long as its vertex array, each of
  \<^verbatim>\<open>cleanup_isolates\<close>, \<^verbatim>\<open>sieve\<close>, \<^verbatim>\<open>cleanup_pinched_nodes\<close> and \<^verbatim>\<open>finalize_mesh\<close>,
  when it returns a mesh, returns one whose value array is as long as its vertex array.
  The claim's case of a non-empty value array is included.
\<close>

theorem value_length_preserved:
  assumes "length (value' m) = length (vert2 m)"
  shows "(cleanup_isolates m = Inr m' \<longrightarrow> length (value' m') = length (vert2 m')) \<and>
         (sieve L m area = Inr m' \<longrightarrow> length (value' m') = length (vert2 m')) \<and>
         (cleanup_pinched_nodes L m = Inr m' \<longrightarrow> length (value' m') = length (vert2 m')) \<and>
         (finalize_mesh L m area = Some (Inr m') \<longrightarrow> length (value' m') = length (vert2 m'))"
proof -
  from assms have al: "value_aligned m" by (simp add: value_aligned_def)
  have "cleanup_isolates m = Inr m' \<Longrightarrow> value_aligned m'"
    using al by (rule cleanup_isolates_aligned)
  moreover have "sieve L m area = Inr m' \<Longrightarrow> value_aligned m'"
    using al by (rule sieve_aligned)
  moreover have "cleanup_pinched_nodes L m = Inr m' \<Longrightarrow> value_aligned m'"
    using al by (rule cleanup_pinched_nodes_aligned)
  moreover have "finalize_mesh L m area = Some (Inr m') \<Longrightarrow> value_aligned m'"
    using al by (rule finalize_mesh_aligned)
  ultimately show ?thesis by (simp add: value_aligned_def)
qed

text \<open>
  At the mesh with nine vertices and nine values, one vertex isolated and one triangle
  floating: each of the four operations returns a mesh, with arrays of equal length.
\<close>

theorem value_length_preserved_witness:
  "length (value' isolate_mesh) = length (vert2 isolate_mesh) \<and> value' isolate_mesh \<noteq> [] \<and>
   (\<exists>m'. cleanup_isolates isolate_mesh = Inr m' \<and> length (value' m') = length (vert2 m')) \<and>
   (\<exists>m'. sieve reflib isolate_mesh None = Inr m' \<and> length (value' m') = length (vert2 m')) \<and>
   (\<exists>m'. cleanup_pinched_nodes reflib isolate_mesh = Inr m' \<and>
          length (value' m') = length (vert2 m')) \<and>
   (\<exists>m'. finalize_mesh reflib isolate_mesh None = Some (Inr m') \<and>
          length (value' m') = length (vert2 m'))"
proof -
  have h: "length (value' isolate_mesh) = length (vert2 isolate_mesh)"
    by (simp add: isolate_mesh_def)
  have n: "value' isolate_mesh \<noteq> []"
    by (simp add: isolate_mesh_def)
  have "\<not> isl (cleanup_isolates isolate_mesh)" by code_simp
  then obtain m1 where m1: "cleanup_isolates isolate_mesh = Inr m1"
    by (cases "cleanup_isolates isolate_mesh") auto
  have "\<not> isl (sieve reflib isolate_mesh None)" by code_simp
  then obtain m2 where m2: "sieve reflib isolate_mesh None = Inr m2"
    by (cases "sieve reflib isolate_mesh None") auto
  have "\<not> isl (cleanup_pinched_nodes reflib isolate_mesh)" by code_simp
  then obtain m3 where m3: "cleanup_pinched_nodes reflib isolate_mesh = Inr m3"
    by (cases "cleanup_pinched_nodes reflib isolate_mesh") auto
  have "(case finalize_mesh reflib isolate_mesh None of
           Some (Inr m') \<Rightarrow> True | Some (Inl e) \<Rightarrow> False | None \<Rightarrow> False)"
    by code_simp
  then obtain m4 where m4: "finalize_mesh reflib isolate_mesh None = Some (Inr m4)"
    by (auto split: option.splits sum.splits)
  from value_length_preserved [OF h, of m1 reflib None] m1
  have 1: "length (value' m1) = length (vert2 m1)" by simp
  from value_length_preserved [OF h, of m2 reflib None] m2
  have 2: "length (value' m2) = length (vert2 m2)" by simp
  from value_length_preserved [OF h, of m3 reflib None] m3
  have 3: "length (value' m3) = length (vert2 m3)" by simp
  from value_length_preserved [OF h, of m4 reflib None] m4
  have 4: "length (value' m4) = length (vert2 m4)" by simp
  from h n m1 m2 m3 m4 1 2 3 4 show ?thesis by simp
qed

section \<open>Sieve\<close>

lemma np_where_upt: "np_where (map P [0..<n]) = filter P [0..<n]"
  unfolding np_where_map by (rule filter_cong) auto





text \<open>
  The vertices \<^verbatim>\<open>sieve\<close> keeps do not depend on the mask: they are the vertices that
  some triangle of the input uses.
\<close>

lemma sieve_apply_vert2:
  assumes "sieve_apply m msk = Inr m'"
  shows "vert2 m' = map (\<lambda>i. vert2 m ! i)
                      (filter (\<lambda>i. i \<in> set (used_indexes m)) [0..<length (vert2 m)])"
proof -
  from assms obtain v2 where
    v2: "np_take (vert2 m)
           (np_where (map (\<lambda>i. i \<in> set (used_indexes m)) [0..<length (vert2 m)])) = Inr v2"
    and m': "vert2 m' = v2"
    unfolding sieve_apply_def Let_def
    by (auto simp: err_bind_eq_Inr)
  have "list_all (\<lambda>i. i < length (vert2 m))
          (filter (\<lambda>i. i \<in> set (used_indexes m)) [0..<length (vert2 m)])"
    by (simp add: list_all_iff)
  from np_take_in_range [OF this] v2 m' show ?thesis
    by (simp add: np_where_upt)
qed

text \<open>
  C1, evaluated. On the square with a floating triangle and no threshold, \<^verbatim>\<open>sieve\<close>
  marks the three vertices 5, 6 and 7 of the floating triangle and drops that triangle,
  but the vertex array and the value array it returns still hold all eight vertices:
  \<^verbatim>\<open>used_indexes\<close> is computed from the triangle table before the marked triangles are
  dropped, so a marked vertex that a dropped triangle used is kept.
\<close>

theorem sieve_keeps_marked_vertices:
  "sieve_mask reflib floating_mesh None
     = Inr [False, False, False, False, False, True, True, True] \<and>
   sieve reflib floating_mesh None
     = Inr (floating_mesh\<lparr>tria3 :=
              [((0, 1, 4), 0), ((1, 2, 4), 0), ((2, 3, 4), 0), ((3, 0, 4), 0)]\<rparr>) \<and>
   length (vert2 floating_mesh) = 8 \<and> length (value' floating_mesh) = 8"
  by code_simp













section \<open>Finalizer\<close>

text \<open>
  A mesh on which the loop test holds and one pass of the body changes nothing is a mesh
  on which the loop does not return.
\<close>

lemma finalize_loop_diverges:
  assumes t: "finalize_test L m = Inr True" and b: "finalize_body L a m = Inr m"
  shows "finalize_loop L a m = None"
proof (rule ccontr)
  assume "finalize_loop L a m \<noteq> None"
  then obtain r where r: "finalize_loop L a m = Some r" by auto
  have "\<not> (L' = L \<and> a' = a \<and> m' = m)" if "finalize_loop L' a' m' = Some r'" for L' a' m' r'
    using that
  proof (induction rule: finalize_loop.raw_induct [rotated 1, consumes 1, case_names step])
    case (step loop L' a' m' r')
    show ?case
    proof
      assume eq: "L' = L \<and> a' = a \<and> m' = m"
      with step(2) t b have "loop L a m = Some r'" by simp
      from step(1) [OF this] show False by simp
    qed
  qed
  from this [OF r] show False by simp
qed

text \<open>
  C3, evaluated. The loop test of \<^verbatim>\<open>finalize_mesh\<close> calls \<^verbatim>\<open>needs_sieve\<close> without the
  caller's threshold. On the square with threshold 4, \<^verbatim>\<open>needs_sieve\<close> against the
  threshold holds (the one polygon has area 4), but the loop test is false and the loop
  is not entered: the mesh comes back with its tags only. On the two squares of sides 2
  and 4 with threshold 1, \<^verbatim>\<open>needs_sieve\<close> against the threshold is false and no node is
  pinched, but the loop test holds (one polygon is smaller than the other), a pass of the
  body changes nothing, and \<^verbatim>\<open>finalize_mesh\<close> does not return.
\<close>

theorem finalize_mesh_ignores_threshold:
  "needs_sieve reflib square_mesh (Some 4) = Inr True \<and>
   finalize_test reflib square_mesh = Inr False \<and>
   finalize_mesh reflib square_mesh (Some 4) = Some (Inr (put_IDtags square_mesh)) \<and>
   needs_sieve reflib uneven_mesh (Some 1) = Inr False \<and>
   has_pinched_nodes reflib uneven_mesh = Inr False \<and>
   finalize_test reflib uneven_mesh = Inr True \<and>
   finalize_body reflib (Some 1) uneven_mesh = Inr uneven_mesh \<and>
   finalize_mesh reflib uneven_mesh (Some 1) = None"
proof -
  have sq: "needs_sieve reflib square_mesh (Some 4) = Inr True \<and>
      finalize_test reflib square_mesh = Inr False \<and>
      finalize_mesh reflib square_mesh (Some 4) = Some (Inr (put_IDtags square_mesh))"
    by code_simp
  have un: "needs_sieve reflib uneven_mesh (Some 1) = Inr False \<and>
      has_pinched_nodes reflib uneven_mesh = Inr False"
    by code_simp
  have t: "finalize_test reflib uneven_mesh = Inr True" by code_simp
  have b: "finalize_body reflib (Some 1) uneven_mesh = Inr uneven_mesh" by code_simp
  have i: "cleanup_isolates uneven_mesh = Inr uneven_mesh" by code_simp
  have "finalize_mesh reflib uneven_mesh (Some 1) = None"
    by (simp add: finalize_mesh_def i finalize_loop_diverges [OF t b])
  with sq un t b show ?thesis by simp
qed

section \<open>A mesh with no boundary edge\<close>

text \<open>
  C6, evaluated. On the four faces of a tetrahedron over four points of a line, the
  triangulation has no \<open>-1\<close> among its neighbours, the list of boundary edges is empty
  and \<^verbatim>\<open>sort_edges\<close> returns the empty list; \<^verbatim>\<open>index_ring_collection\<close> then takes
  \<^verbatim>\<open>np.max\<close> of the empty list of areas and raises \<^verbatim>\<open>ValueError\<close>, and so do
  \<^verbatim>\<open>inner_ring_collection\<close> and \<^verbatim>\<open>outer_ring_collection\<close>.
\<close>

theorem index_ring_collection_raises_without_boundary:
  "mesh_to_tri reflib closed_mesh
     = Inr \<lparr>tri_x = [0, 1, 2, 3], tri_y = [0, 0, 0, 0],
             tri_triangles = [(0, 1, 3), (1, 2, 3), (2, 0, 3), (0, 2, 1)],
             tri_neighbors = [(3, 1, 2), (3, 2, 0), (3, 0, 1), (2, 1, 0)],
             tri_edges = [(1, 0), (2, 0), (2, 1), (3, 0), (3, 1), (3, 2)]\<rparr> \<and>
   err_bind (mesh_to_tri reflib closed_mesh) boundary_edges = Inr [] \<and>
   sort_edges [] = Inr [] \<and>
   boundary_rings reflib closed_mesh = Inr [] \<and>
   index_ring_collection reflib closed_mesh = Inl ValueError \<and>
   inner_ring_collection reflib closed_mesh = Inl ValueError \<and>
   outer_ring_collection reflib closed_mesh = Inl ValueError"
  by code_simp

section \<open>Gradient limiter\<close>

lemma sqrt_16: "sqrt 16 = 4"
  using real_sqrt_abs [of 4] by simp

lemma sqrt_9: "sqrt 9 = 3"
  using real_sqrt_abs [of 3] by simp

lemma sqrt_25: "sqrt 25 = 5"
  using real_sqrt_abs [of 5] by simp

lemma tri_mesh_tri:
  "mesh_to_tri reflib tri_mesh
     = Inr \<lparr>tri_x = [0, 4, 0], tri_y = [0, 0, 3], tri_triangles = [(0, 1, 2)],
             tri_neighbors = [(- 1, - 1, - 1)], tri_edges = [(1, 0), (2, 0), (2, 1)]\<rparr>"
  by code_simp

lemma tri_mesh_elen:
  "edge_lengths \<lparr>tri_x = [0, 4, 0], tri_y = [0, 0, 3], tri_triangles = [(0, 1, 2)],
                  tri_neighbors = [(- 1, - 1, - 1)], tri_edges = [(1, 0), (2, 0), (2, 1)]\<rparr>
     = Inr [4, 3, 5]"
  by (simp add: edge_lengths_def getitem_def sqrt_16 sqrt_9 sqrt_25)

lemma tri_mesh_value: "value' tri_mesh = [0, 10, 20]"
  by (simp add: tri_mesh_def)

lemma tri_mesh_min: "np_min [0, 10, 20] = Inr 0"
  by (simp add: np_min_def)

lemma tri_mesh_core_100: "limgrad_core reflib [4, 3, 5] [(0, 1, 2)] [0, 10, 20] 0 1 100 = Inr [0, 3, 4]"
  by code_simp

lemma tri_mesh_core_3:
  "limgrad_core reflib [4, 3, 5] [(0, 1, 2)] [0, 10, 20] 0 1 3 = Inl (DidNotConverge 3)"
  by code_simp

lemma tri_mesh_core_0:
  "limgrad_core reflib [4, 3, 5] [(0, 1, 2)] [0, 10, 20] 0 1 0 = Inl UnboundLocalError"
  by code_simp

lemmas tri_mesh_eval =
  tri_mesh_tri tri_mesh_elen tri_mesh_value tri_mesh_min err_bind_Inr mult_zero_left
  triangulation.select_convs

text \<open>
  C2, evaluated. On the right triangle with vertices \<open>(0,0)\<close>, \<open>(4,0)\<close>, \<open>(0,3)\<close>, field
  \<open>[0, 10, 20]\<close>, slope 1 and cap 100, the edge lengths are 4, 3 and 5 for the edges
  \<open>(1,0)\<close>, \<open>(2,0)\<close>, \<open>(2,1)\<close>, the tolerance is 0, and \<^verbatim>\<open>limgrad\<close> returns
  \<open>[0, 3, 4]\<close>. The edge between vertices 2 and 0 has length 3 and the returned values
  differ by 4 across it. The loop reads \<^verbatim>\<open>elen[active_idx]\<close>, the length of the edge
  whose number is the vertex's number, for every neighbour of the vertex.
\<close>

theorem limgrad_exceeds_gradient_bound:
  "limgrad reflib tri_mesh 1 100 = Inr [0, 3, 4] \<and>
   err_bind (mesh_to_tri reflib tri_mesh) (\<lambda>T. Inr (tri_edges T)) = Inr [(1, 0), (2, 0), (2, 1)] \<and>
   err_bind (mesh_to_tri reflib tri_mesh) edge_lengths = Inr [4, 3, 5] \<and>
   \<not> \<bar>[0, 3, 4 :: real] ! 2 - [0, 3, 4] ! 0\<bar> \<le> 1 * 3 + 0 * sqrt float_eps"
proof -
  have a: "limgrad reflib tri_mesh 1 100 = Inr [0, 3, 4]"
    unfolding limgrad_def by (simp only: tri_mesh_eval tri_mesh_core_100)
  have b: "err_bind (mesh_to_tri reflib tri_mesh) (\<lambda>T. Inr (tri_edges T))
             = Inr [(1, 0), (2, 0), (2, 1)]"
    by (simp only: tri_mesh_eval)
  have c: "err_bind (mesh_to_tri reflib tri_mesh) edge_lengths = Inr [4, 3, 5]"
    by (simp only: tri_mesh_eval)
  have d: "\<not> \<bar>[0, 3, 4 :: real] ! 2 - [0, 3, 4] ! 0\<bar> \<le> 1 * 3 + 0 * sqrt float_eps"
    by simp
  from a b c d show ?thesis by blast
qed

text \<open>
  C5, evaluated. On the same input, two passes leave the field \<open>[0, 3, 4]\<close> and the
  counters \<open>[0, 1, 1]\<close>, so the active set is empty at the start of iteration 3. With
  cap 3 the loop breaks there with \<^verbatim>\<open>_iter = 3\<close>, the test \<^verbatim>\<open>not _iter < imax\<close> holds,
  and \<^verbatim>\<open>limgrad\<close> raises the non-convergence error; with cap 0 the loop body never
  runs and reading \<^verbatim>\<open>_iter\<close> raises another error.
\<close>

theorem limgrad_raises_after_convergence:
  "limgrad_loop reflib 1 0 [4, 3, 5] [(0, 1, 2)] 2 1 ([0, 10, 20], [0, 0, 0])
     = Inr (2, [0, 3, 4], [0, 1, 1]) \<and>
   np_where (map (\<lambda>a. a = 3 - 1) [0, 1, 1 :: nat]) = [] \<and>
   limgrad reflib tri_mesh 1 3 = Inl (DidNotConverge 3) \<and>
   limgrad reflib tri_mesh 1 0 = Inl UnboundLocalError"
proof -
  have a: "limgrad_loop reflib 1 0 [4, 3, 5] [(0, 1, 2)] 2 1 ([0, 10, 20], [0, 0, 0])
     = Inr (2, [0, 3, 4], [0, 1, 1])"
    by code_simp
  have b: "np_where (map (\<lambda>a. a = 3 - 1) [0, 1, 1 :: nat]) = []"
    by code_simp
  have c: "limgrad reflib tri_mesh 1 3 = Inl (DidNotConverge 3)"
    unfolding limgrad_def by (simp only: tri_mesh_eval tri_mesh_core_3)
  have d: "limgrad reflib tri_mesh 1 0 = Inl UnboundLocalError"
    unfolding limgrad_def by (simp only: tri_mesh_eval tri_mesh_core_0)
  from a b c d show ?thesis by blast
qed

end
